theory Spec2Isabelle
  imports Main "HOL-Library.Word"
begin

section \<open>C values\<close>

text \<open>
  The binding \<^verbatim>\<open>cxapian.cc\<close> is a layer of C functions over the C++ classes of the
  Xapian library. Its functions allocate handle structs, dereference them and call the
  library; the model keeps these steps, over an explicit heap.
\<close>

type_synonym addr = nat

definition NULL :: addr where
  "NULL = 0"

text \<open>The C type \<^verbatim>\<open>int\<close>: 32 bits, read as two's complement by \<^const>\<open>sint\<close>.\<close>

type_synonym c_int = "32 word"

text \<open>
  \<^verbatim>\<open>Xapian::termpos\<close>, the library's position type, is an unsigned integer of the width
  of \<^verbatim>\<open>int\<close> (its declaration is in the library's headers): read by \<^const>\<open>unat\<close>.
\<close>

type_synonym termpos = "32 word"

definition NUL :: char where
  "NUL = CHR 0x00"

text \<open>
  An argument of type \<^verbatim>\<open>const char *\<close> is given by the bytes that the caller stored
  from the pointer on; the caller ends them by a NUL. \<^verbatim>\<open>std::string(const char *)\<close>
  copies the bytes before the first NUL.
\<close>

definition std_string :: "string \<Rightarrow> string" where
  "std_string cs = takeWhile (\<lambda>c. c \<noteq> NUL) cs"


section \<open>The library's values\<close>

text \<open>
  The error taxonomy of the search engine. A thrown \<^verbatim>\<open>Xapian::Error\<close> carries its
  kind and a message, read by \<^verbatim>\<open>get_msg()\<close>.
\<close>

datatype error_kind =
  OpenError | LockHeldError | CommitError | InvalidOperatorError | UnboundQueryError

datatype xapian_error = Error (error_type: error_kind) (get_msg: string)

text \<open>
  Modelled from the spec: \<^verbatim>\<open>Xapian::Document\<close>, whose code is in the library. A document
  has data, an opaque byte sequence set by the caller, and terms, the (term, position)
  pairs added incrementally. A new document has empty data and no terms.
\<close>

record document =
  data :: string
  terms :: "(string \<times> termpos) list"

definition Document :: document where
  "Document = \<lparr>data = [], terms = []\<rparr>"

definition set_data :: "string \<Rightarrow> document \<Rightarrow> document" where
  "set_data s d = d\<lparr>data := s\<rparr>"

definition add_posting :: "string \<Rightarrow> termpos \<Rightarrow> document \<Rightarrow> document" where
  "add_posting t p d = d\<lparr>terms := List.insert (t, p) (terms d)\<rparr>"

text \<open>
  Modelled from the spec: the document store of a database and the writer's
  \<^verbatim>\<open>add_document\<close>, whose code is in the library. The writer appends the document under
  the next sequential document id and gives this id back.
\<close>

record database =
  docs :: "(nat \<times> document) list"
  lastdocid :: nat

definition add_document :: "document \<Rightarrow> database \<Rightarrow> nat \<times> database" where
  "add_document d db =
     (let did = Suc (lastdocid db)
      in (did, db\<lparr>docs := docs db @ [(did, d)], lastdocid := did\<rparr>))"

text \<open>
  Modelled from the spec: \<^verbatim>\<open>Xapian::Enquire\<close>, whose code is in the library, binds to
  one snapshot of a database: an enquire object is given by the database that it was
  constructed from.
\<close>

type_synonym enquire = database

text \<open>
  Modelled from the spec: \<^verbatim>\<open>Xapian::Query\<close>, whose code is in the library. A query is an
  immutable tree of term leaves and of nodes that combine two queries by an operator.
  The constructor of a node fails with \<^const>\<open>InvalidOperatorError\<close> on an operator code
  that is not recognized. The set of the recognized codes (the enumeration
  \<^verbatim>\<open>Xapian::Query::op\<close>) is in the library's headers: it is the parameter \<open>recognized\<close>.
\<close>

datatype query = TermLeaf string | Combine c_int query query

definition Query :: "string \<Rightarrow> query" where
  "Query term = TermLeaf term"

definition Query_op :: "(c_int \<Rightarrow> bool) \<Rightarrow> c_int \<Rightarrow> query \<Rightarrow> query \<Rightarrow> error_kind + query" where
  "Query_op recognized op left right =
     (if recognized op then Inr (Combine op left right) else Inl InvalidOperatorError)"


section \<open>The heap\<close>

text \<open>
  A cell of the heap is one of the four handle structs of \<^verbatim>\<open>cxapian.cc\<close>, each with its
  single pointer field, an object of the library, the object of a thrown exception, a
  \<^verbatim>\<open>std::string\<close> with its characters, or a \<^verbatim>\<open>const char *\<close> variable of the caller (the target of the out-parameter
  \<^verbatim>\<open>errorStr\<close>).
\<close>

datatype cell =
    xapian_database_t addr
  | xapian_document_t addr
  | xapian_enquire_t addr
  | xapian_query_t addr
  | DatabaseObj database
  | WritableDatabaseObj database
  | DocumentObj document
  | EnquireObj enquire
  | QueryObj query
  | ErrorObj xapian_error
  | StringObj string
  | CharPtr addr

text \<open>
  The heap is the sequence of the cells allocated so far, each with the flag of being
  alive; the cell of address \<open>a\<close> is at index \<open>a - 1\<close>, and no cell has the address
  \<^const>\<open>NULL\<close>. An allocation appends a cell, so that its address is fresh. A destroyed
  cell keeps its place and loses the flag: a pointer to it dangles.
\<close>

type_synonym heap = "(cell \<times> bool) list"

definition alloc :: "cell \<Rightarrow> heap \<Rightarrow> addr \<times> heap" where
  "alloc c h = (Suc (length h), h @ [(c, True)])"

definition peek :: "heap \<Rightarrow> addr \<Rightarrow> cell option" where
  "peek h a = (if 0 < a \<and> a \<le> length h then Some (fst (h ! (a - 1))) else None)"

definition live :: "heap \<Rightarrow> addr \<Rightarrow> bool" where
  "live h a = (0 < a \<and> a \<le> length h \<and> snd (h ! (a - 1)))"

definition deref :: "heap \<Rightarrow> addr \<Rightarrow> cell option" where
  "deref h a = (if live h a then peek h a else None)"

definition assign :: "heap \<Rightarrow> addr \<Rightarrow> cell \<Rightarrow> heap" where
  "assign h a c = h[a - 1 := (c, True)]"

definition destroy :: "heap \<Rightarrow> addr \<Rightarrow> heap" where
  "destroy h a = h[a - 1 := (fst (h ! (a - 1)), False)]"

text \<open>
  What a call of a function of the binding does: it returns a value and leaves a heap,
  or an exception of the library leaves the function (only the two functions that open
  a database have a handler), or the call is undefined in C++ (a null, dangling or
  wrongly typed pointer is dereferenced).
\<close>

datatype cvalue = VVoid | VPtr addr | VUInt nat

datatype outcome = Returns cvalue heap | Raises error_kind heap | Undefined


section \<open>The functions of cxapian.cc\<close>

subsection \<open>Databases\<close>

text \<open>
  The constructors \<^verbatim>\<open>Xapian::WritableDatabase(filename, options)\<close> and
  \<^verbatim>\<open>Xapian::Database(filename)\<close> are parameters: they give the opened database or
  throw a \<^verbatim>\<open>Xapian::Error\<close>. The handler writes to \<^verbatim>\<open>*errorStr\<close> the
  \<^verbatim>\<open>c_str()\<close> of the message that the exception object holds, which is modelled by the
  address of this object; the exception object is destroyed when the handler is left.
  A handle struct is allocated first and its pointer field is set once the object of the
  library exists; until then the field holds \<^const>\<open>NULL\<close> in the model (in
  \<^verbatim>\<open>xapian_writable_db_new\<close> the struct is value-initialised, in the other functions the
  field is indeterminate and never read before it is set).
\<close>

definition xapian_writable_db_new ::
  "(string \<Rightarrow> c_int \<Rightarrow> xapian_error + database) \<Rightarrow> string \<Rightarrow> c_int \<Rightarrow> addr \<Rightarrow> heap \<Rightarrow> outcome" where
  "xapian_writable_db_new WritableDatabase cFilename options errorStr h =
     (let (db, h1) = alloc (xapian_database_t NULL) h;
          filename = std_string cFilename
      in case WritableDatabase filename options of
           Inr d \<Rightarrow>
             (let (p, h2) = alloc (WritableDatabaseObj d) h1
              in Returns (VPtr db) (assign h2 db (xapian_database_t p)))
         | Inl error \<Rightarrow>
             (let (e, h2) = alloc (ErrorObj error) h1
              in case deref h2 errorStr of
                   Some (CharPtr _) \<Rightarrow>
                     Returns (VPtr NULL) (destroy (destroy (assign h2 errorStr (CharPtr e)) db) e)
                 | _ \<Rightarrow> Undefined))"

definition xapian_database_new ::
  "(string \<Rightarrow> xapian_error + database) \<Rightarrow> string \<Rightarrow> addr \<Rightarrow> heap \<Rightarrow> outcome" where
  "xapian_database_new Database cFilename errorStr h =
     (let (db, h1) = alloc (xapian_database_t NULL) h;
          filename = std_string cFilename
      in case Database filename of
           Inr d \<Rightarrow>
             (let (p, h2) = alloc (DatabaseObj d) h1
              in Returns (VPtr db) (assign h2 db (xapian_database_t p)))
         | Inl error \<Rightarrow>
             (let (e, h2) = alloc (ErrorObj error) h1
              in case deref h2 errorStr of
                   Some (CharPtr _) \<Rightarrow>
                     Returns (VPtr NULL) (destroy (destroy (assign h2 errorStr (CharPtr e)) db) e)
                 | _ \<Rightarrow> Undefined))"

text \<open>
  \<^verbatim>\<open>xapian_writable_db_add_document\<close> casts the database of the handle to a writable
  database, which is defined only when it is one, and adds the document. Its return
  type is \<^verbatim>\<open>void\<close>: the document id that \<^verbatim>\<open>add_document\<close> gives is dropped.
\<close>

definition xapian_writable_db_add_document :: "addr \<Rightarrow> addr \<Rightarrow> heap \<Rightarrow> outcome" where
  "xapian_writable_db_add_document database document h =
     (case deref h database of
        Some (xapian_database_t p) \<Rightarrow>
          (case deref h document of
             Some (xapian_document_t dp) \<Rightarrow>
               (case deref h dp of
                  Some (DocumentObj doc) \<Rightarrow>
                    (case deref h p of
                       Some (WritableDatabaseObj wdb) \<Rightarrow>
                         (let (did, wdb') = add_document doc wdb
                          in Returns VVoid (assign h p (WritableDatabaseObj wdb')))
                     | _ \<Rightarrow> Undefined)
                | _ \<Rightarrow> Undefined)
           | _ \<Rightarrow> Undefined)
      | _ \<Rightarrow> Undefined)"

definition xapian_database_delete :: "addr \<Rightarrow> heap \<Rightarrow> outcome" where
  "xapian_database_delete database h =
     (case deref h database of
        Some (xapian_database_t p) \<Rightarrow>
          (if p = NULL then Returns VVoid (destroy h database)
           else if live h p then Returns VVoid (destroy (destroy h p) database)
           else Undefined)
      | _ \<Rightarrow> Undefined)"


subsection \<open>Documents\<close>

definition xapian_document_new :: "heap \<Rightarrow> outcome" where
  "xapian_document_new h =
     (let (document, h1) = alloc (xapian_document_t NULL) h;
          (p, h2) = alloc (DocumentObj Document) h1
      in Returns (VPtr document) (assign h2 document (xapian_document_t p)))"

definition xapian_document_delete :: "addr \<Rightarrow> heap \<Rightarrow> outcome" where
  "xapian_document_delete document h =
     (case deref h document of
        Some (xapian_document_t p) \<Rightarrow>
          (if p = NULL then Returns VVoid (destroy h document)
           else if live h p then Returns VVoid (destroy (destroy h p) document)
           else Undefined)
      | _ \<Rightarrow> Undefined)"

definition xapian_document_set_data :: "addr \<Rightarrow> string \<Rightarrow> heap \<Rightarrow> outcome" where
  "xapian_document_set_data doc data_bytes h =
     (case deref h doc of
        Some (xapian_document_t p) \<Rightarrow>
          (case deref h p of
             Some (DocumentObj d) \<Rightarrow>
               Returns VVoid (assign h p (DocumentObj (set_data (std_string data_bytes) d)))
           | _ \<Rightarrow> Undefined)
      | _ \<Rightarrow> Undefined)"

text \<open>
  The position is an \<^verbatim>\<open>int\<close> at the boundary and a \<^verbatim>\<open>Xapian::termpos\<close> in the
  library: the call converts it, which keeps the 32 bits and changes only how they are
  read.
\<close>

definition xapian_document_add_posting :: "addr \<Rightarrow> string \<Rightarrow> c_int \<Rightarrow> heap \<Rightarrow> outcome" where
  "xapian_document_add_posting doc posting pos h =
     (case deref h doc of
        Some (xapian_document_t p) \<Rightarrow>
          (case deref h p of
             Some (DocumentObj d) \<Rightarrow>
               Returns VVoid (assign h p (DocumentObj (add_posting (std_string posting) pos d)))
           | _ \<Rightarrow> Undefined)
      | _ \<Rightarrow> Undefined)"


subsection \<open>Enquire\<close>

definition xapian_enquire_new :: "addr \<Rightarrow> heap \<Rightarrow> outcome" where
  "xapian_enquire_new database h =
     (let (enquire, h1) = alloc (xapian_enquire_t NULL) h
      in case deref h1 database of
           Some (xapian_database_t dp) \<Rightarrow>
             (case deref h1 dp of
                Some (DatabaseObj d) \<Rightarrow>
                  (let (p, h2) = alloc (EnquireObj d) h1
                   in Returns (VPtr enquire) (assign h2 enquire (xapian_enquire_t p)))
              | Some (WritableDatabaseObj d) \<Rightarrow>
                  (let (p, h2) = alloc (EnquireObj d) h1
                   in Returns (VPtr enquire) (assign h2 enquire (xapian_enquire_t p)))
              | _ \<Rightarrow> Undefined)
         | _ \<Rightarrow> Undefined)"

definition xapian_enquire_delete :: "addr \<Rightarrow> heap \<Rightarrow> outcome" where
  "xapian_enquire_delete enquire h =
     (case deref h enquire of
        Some (xapian_enquire_t p) \<Rightarrow>
          (if p = NULL then Returns VVoid (destroy h enquire)
           else if live h p then Returns VVoid (destroy (destroy h p) enquire)
           else Undefined)
      | _ \<Rightarrow> Undefined)"


subsection \<open>Queries\<close>

definition xapian_query_new :: "string \<Rightarrow> heap \<Rightarrow> outcome" where
  "xapian_query_new term h =
     (let (query, h1) = alloc (xapian_query_t NULL) h;
          (p, h2) = alloc (QueryObj (Query (std_string term))) h1
      in Returns (VPtr query) (assign h2 query (xapian_query_t p)))"

text \<open>
  \<^verbatim>\<open>xapian_query_combine\<close> casts the code to the library's operator type without a
  check and has no handler: an exception of the constructor leaves the function, after
  the handle struct was allocated.
\<close>

definition xapian_query_combine ::
  "(c_int \<Rightarrow> bool) \<Rightarrow> c_int \<Rightarrow> addr \<Rightarrow> addr \<Rightarrow> heap \<Rightarrow> outcome" where
  "xapian_query_combine recognized op qa qb h =
     (let (query, h1) = alloc (xapian_query_t NULL) h
      in case deref h1 qa of
           Some (xapian_query_t pa) \<Rightarrow>
             (case deref h1 pa of
                Some (QueryObj a) \<Rightarrow>
                  (case deref h1 qb of
                     Some (xapian_query_t pb) \<Rightarrow>
                       (case deref h1 pb of
                          Some (QueryObj b) \<Rightarrow>
                            (case Query_op recognized op a b of
                               Inr q \<Rightarrow>
                                 (let (p, h2) = alloc (QueryObj q) h1
                                  in Returns (VPtr query) (assign h2 query (xapian_query_t p)))
                             | Inl error \<Rightarrow> Raises error h1)
                        | _ \<Rightarrow> Undefined)
                   | _ \<Rightarrow> Undefined)
              | _ \<Rightarrow> Undefined)
         | _ \<Rightarrow> Undefined)"

text \<open>
  \<^verbatim>\<open>get_description()\<close>, the library's rendering of a query, is a parameter; the
  library returns the rendering as a \<^verbatim>\<open>std::string\<close> by value.
  \<^verbatim>\<open>xapian_query_describe\<close> returns the \<^verbatim>\<open>c_str()\<close> of this temporary string, which
  is modelled by the address of the string; the temporary is destroyed at the end of the
  return statement, before the caller has the pointer.
\<close>

definition xapian_query_describe :: "(query \<Rightarrow> string) \<Rightarrow> addr \<Rightarrow> heap \<Rightarrow> outcome" where
  "xapian_query_describe get_description query h =
     (case deref h query of
        Some (xapian_query_t p) \<Rightarrow>
          (case deref h p of
             Some (QueryObj q) \<Rightarrow>
               (let (s, h1) = alloc (StringObj (get_description q)) h
                in Returns (VPtr s) (destroy h1 s))
           | _ \<Rightarrow> Undefined)
      | _ \<Rightarrow> Undefined)"

definition xapian_query_delete :: "addr \<Rightarrow> heap \<Rightarrow> outcome" where
  "xapian_query_delete query h =
     (case deref h query of
        Some (xapian_query_t p) \<Rightarrow>
          (if p = NULL then Returns VVoid (destroy h query)
           else if live h p then Returns VVoid (destroy (destroy h p) query)
           else Undefined)
      | _ \<Rightarrow> Undefined)"


section \<open>Reading the heap\<close>

text \<open>The library object behind a handle, when the handle and the object are alive.\<close>

definition document_at :: "heap \<Rightarrow> addr \<Rightarrow> document option" where
  "document_at h doc =
     (case deref h doc of
        Some (xapian_document_t p) \<Rightarrow>
          (case deref h p of Some (DocumentObj d) \<Rightarrow> Some d | _ \<Rightarrow> None)
      | _ \<Rightarrow> None)"

definition query_at :: "heap \<Rightarrow> addr \<Rightarrow> query option" where
  "query_at h query =
     (case deref h query of
        Some (xapian_query_t p) \<Rightarrow>
          (case deref h p of Some (QueryObj q) \<Rightarrow> Some q | _ \<Rightarrow> None)
      | _ \<Rightarrow> None)"

definition database_at :: "heap \<Rightarrow> addr \<Rightarrow> database option" where
  "database_at h db =
     (case deref h db of
        Some (xapian_database_t p) \<Rightarrow>
          (case deref h p of
             Some (DatabaseObj d) \<Rightarrow> Some d
           | Some (WritableDatabaseObj d) \<Rightarrow> Some d
           | _ \<Rightarrow> None)
      | _ \<Rightarrow> None)"

definition writable_at :: "heap \<Rightarrow> addr \<Rightarrow> database option" where
  "writable_at h db =
     (case deref h db of
        Some (xapian_database_t p) \<Rightarrow>
          (case deref h p of Some (WritableDatabaseObj d) \<Rightarrow> Some d | _ \<Rightarrow> None)
      | _ \<Rightarrow> None)"

definition enquire_at :: "heap \<Rightarrow> addr \<Rightarrow> enquire option" where
  "enquire_at h enquire =
     (case deref h enquire of
        Some (xapian_enquire_t p) \<Rightarrow>
          (case deref h p of Some (EnquireObj d) \<Rightarrow> Some d | _ \<Rightarrow> None)
      | _ \<Rightarrow> None)"

text \<open>The positions recorded for a term in a document, read as unsigned integers.\<close>

definition positions :: "string \<Rightarrow> document \<Rightarrow> nat list" where
  "positions t d = map (\<lambda>tp. unat (snd tp)) (filter (\<lambda>tp. fst tp = t) (terms d))"

text \<open>The value that a call returns and the heap that it leaves.\<close>

fun returned :: "outcome \<Rightarrow> cvalue option" where
  "returned (Returns v h) = Some v"
| "returned (Raises e h) = None"
| "returned Undefined = None"

fun heap_after :: "outcome \<Rightarrow> heap option" where
  "heap_after (Returns v h) = Some h"
| "heap_after (Raises e h) = Some h"
| "heap_after Undefined = None"

text \<open>
  The scenario \<^verbatim>\<open>describe(combine(op, termQuery(a), termQuery(b)))\<close> through the
  binding: two term queries, their combination, and its description.
\<close>

definition describe_combine ::
  "(c_int \<Rightarrow> bool) \<Rightarrow> (query \<Rightarrow> string) \<Rightarrow> c_int \<Rightarrow> string \<Rightarrow> string \<Rightarrow> heap \<Rightarrow> outcome" where
  "describe_combine recognized get_description op a b h =
     (case xapian_query_new a h of
        Returns (VPtr qa) h1 \<Rightarrow>
          (case xapian_query_new b h1 of
             Returns (VPtr qb) h2 \<Rightarrow>
               (case xapian_query_combine recognized op qa qb h2 of
                  Returns (VPtr q) h3 \<Rightarrow> xapian_query_describe get_description q h3
                | out \<Rightarrow> out)
           | out \<Rightarrow> out)
      | out \<Rightarrow> out)"


section \<open>Instances of the parameters\<close>

text \<open>
  For the examples: a library that opens the one path \<^verbatim>\<open>index\<close> and knows the operators
  AND, OR and AND_NOT under the codes 0, 1 and 2 of \<^verbatim>\<open>Xapian::Query::op\<close>; a rendering
  of queries; and a heap holding one \<^verbatim>\<open>const char *\<close> variable of the caller that is
  null.
\<close>

definition empty_database :: database where
  "empty_database = \<lparr>docs = [], lastdocid = 0\<rparr>"

definition demo_Database :: "string \<Rightarrow> xapian_error + database" where
  "demo_Database filename =
     (if filename = ''index'' then Inr empty_database
      else Inl (Error OpenError ''no database''))"

definition demo_WritableDatabase :: "string \<Rightarrow> c_int \<Rightarrow> xapian_error + database" where
  "demo_WritableDatabase filename options =
     (if filename = ''index'' then Inr empty_database
      else Inl (Error LockHeldError ''locked''))"

definition demo_recognized :: "c_int \<Rightarrow> bool" where
  "demo_recognized op = (op = 0 \<or> op = 1 \<or> op = 2)"

fun demo_description :: "query \<Rightarrow> string" where
  "demo_description (TermLeaf t) = t"
| "demo_description (Combine op l r) =
     ''('' @ demo_description l @ '','' @ demo_description r @ '')''"

definition caller_heap :: heap where
  "caller_heap = [(CharPtr NULL, True)]"


definition writer_heap :: heap where
  "writer_heap =
     [(CharPtr NULL, True),
      (xapian_database_t 3, True), (WritableDatabaseObj empty_database, True),
      (xapian_document_t 5, True), (DocumentObj Document, True)]"

definition query_heap :: heap where
  "query_heap =
     [(CharPtr NULL, True),
      (xapian_query_t 3, True), (QueryObj (TermLeaf ''a''), True),
      (xapian_query_t 5, True), (QueryObj (TermLeaf ''b''), True)]"

section \<open>The heap under allocation\<close>

lemma deref_range: "deref h a = Some c \<Longrightarrow> 0 < a \<and> a \<le> length h"
  by (simp add: deref_def live_def split: if_splits)

lemma deref_append_old: "deref h a = Some c \<Longrightarrow> deref (h @ xs) a = Some c"
  by (auto simp: deref_def live_def peek_def nth_append split: if_splits)

lemma deref_new_handle:
  "deref (h @ [(c, True), x]) (Suc (length h)) = Some c"
  "deref (h @ [x, (c, True)]) (Suc (Suc (length h))) = Some c"
  by (simp_all add: deref_def live_def peek_def nth_append)

lemma document_at_append: "document_at h doc = Some d \<Longrightarrow> document_at (h @ xs) doc = Some d"
  by (auto simp: document_at_def deref_append_old split: option.splits cell.splits)

lemma query_at_append: "query_at h q = Some a \<Longrightarrow> query_at (h @ xs) q = Some a"
  by (auto simp: query_at_def deref_append_old split: option.splits cell.splits)

lemma database_at_append: "database_at h db = Some d \<Longrightarrow> database_at (h @ xs) db = Some d"
  by (auto simp: database_at_def deref_append_old split: option.splits cell.splits)

lemma query_at_new_handle:
  "query_at (h @ [(xapian_query_t (Suc (Suc (length h))), True), (QueryObj q, True)]) (Suc (length h)) = Some q"
  by (simp add: query_at_def deref_new_handle)

lemma document_at_new_handle:
  "document_at (h @ [(xapian_document_t (Suc (Suc (length h))), True), (DocumentObj d, True)]) (Suc (length h)) = Some d"
  by (simp add: document_at_def deref_new_handle)

lemma writable_at_new_handle:
  "writable_at (h @ [(xapian_database_t (Suc (Suc (length h))), True), (WritableDatabaseObj d, True)]) (Suc (length h)) = Some d"
  by (simp add: writable_at_def deref_new_handle)

lemma database_at_new_handle:
  "database_at (h @ [(xapian_database_t (Suc (Suc (length h))), True), (DatabaseObj d, True)]) (Suc (length h)) = Some d"
  by (simp add: database_at_def deref_new_handle)

lemma enquire_at_new_handle:
  "enquire_at (h @ [(xapian_enquire_t (Suc (Suc (length h))), True), (EnquireObj d, True)]) (Suc (length h)) = Some d"
  by (simp add: enquire_at_def deref_new_handle)

lemma error_heap:
  assumes "deref h errorStr = Some (CharPtr old)"
    and "H = h[errorStr - 1 := (CharPtr (Suc (Suc (length h))), True)]
          @ [(xapian_database_t NULL, False), (ErrorObj error, False)]"
  shows "deref H errorStr = Some (CharPtr (Suc (Suc (length h))))"
    and "peek H (Suc (Suc (length h))) = Some (ErrorObj error)"
    and "\<not> live H (Suc (Suc (length h)))"
    and "deref H (Suc (Suc (length h))) = None"
  using assms by (auto simp: deref_def live_def peek_def nth_append split: if_splits)

section \<open>The results of the functions\<close>

lemma xapian_writable_db_new_ok:
  assumes "WritableDatabase (std_string cFilename) options = Inr d"
  shows "xapian_writable_db_new WritableDatabase cFilename options errorStr h =
     Returns (VPtr (Suc (length h)))
       (h @ [(xapian_database_t (Suc (Suc (length h))), True), (WritableDatabaseObj d, True)])"
  using assms by (simp add: xapian_writable_db_new_def alloc_def assign_def)

lemma xapian_writable_db_new_error:
  assumes "WritableDatabase (std_string cFilename) options = Inl error"
    and "deref h errorStr = Some (CharPtr old)"
  shows "xapian_writable_db_new WritableDatabase cFilename options errorStr h =
     Returns (VPtr NULL)
       (h[errorStr - 1 := (CharPtr (Suc (Suc (length h))), True)]
          @ [(xapian_database_t NULL, False), (ErrorObj error, False)])"
proof -
  from assms(2) have r: "0 < errorStr" "errorStr \<le> length h"
    using deref_range by blast+
  have d: "deref (h @ [(xapian_database_t NULL, True), (ErrorObj error, True)]) errorStr = Some (CharPtr old)"
    using assms(2) by (rule deref_append_old)
  show ?thesis
    using assms(1) r d
    by (simp add: xapian_writable_db_new_def alloc_def assign_def destroy_def list_update_append nth_append)
qed

lemma xapian_database_new_ok:
  assumes "Database (std_string cFilename) = Inr d"
  shows "xapian_database_new Database cFilename errorStr h =
     Returns (VPtr (Suc (length h)))
       (h @ [(xapian_database_t (Suc (Suc (length h))), True), (DatabaseObj d, True)])"
  using assms by (simp add: xapian_database_new_def alloc_def assign_def)

lemma xapian_database_new_error:
  assumes "Database (std_string cFilename) = Inl error"
    and "deref h errorStr = Some (CharPtr old)"
  shows "xapian_database_new Database cFilename errorStr h =
     Returns (VPtr NULL)
       (h[errorStr - 1 := (CharPtr (Suc (Suc (length h))), True)]
          @ [(xapian_database_t NULL, False), (ErrorObj error, False)])"
proof -
  from assms(2) have r: "0 < errorStr" "errorStr \<le> length h"
    using deref_range by blast+
  have d: "deref (h @ [(xapian_database_t NULL, True), (ErrorObj error, True)]) errorStr = Some (CharPtr old)"
    using assms(2) by (rule deref_append_old)
  show ?thesis
    using assms(1) r d
    by (simp add: xapian_database_new_def alloc_def assign_def destroy_def list_update_append nth_append)
qed

lemma xapian_document_new_eq:
  "xapian_document_new h =
     Returns (VPtr (Suc (length h)))
       (h @ [(xapian_document_t (Suc (Suc (length h))), True), (DocumentObj Document, True)])"
  by (simp add: xapian_document_new_def alloc_def assign_def)

lemma xapian_query_new_eq:
  "xapian_query_new term h =
     Returns (VPtr (Suc (length h)))
       (h @ [(xapian_query_t (Suc (Suc (length h))), True), (QueryObj (TermLeaf (std_string term)), True)])"
  by (simp add: xapian_query_new_def alloc_def assign_def Query_def)

lemma xapian_query_combine_eq:
  assumes "query_at h qa = Some a" and "query_at h qb = Some b"
  shows "xapian_query_combine recognized op qa qb h =
     (if recognized op
      then Returns (VPtr (Suc (length h)))
             (h @ [(xapian_query_t (Suc (Suc (length h))), True), (QueryObj (Combine op a b), True)])
      else Raises InvalidOperatorError (h @ [(xapian_query_t NULL, True)]))"
  using assms
  by (auto simp: xapian_query_combine_def query_at_def alloc_def assign_def Query_op_def deref_append_old
      split: option.splits cell.splits)

lemma xapian_enquire_new_eq:
  assumes "database_at h database = Some d"
  shows "xapian_enquire_new database h =
     Returns (VPtr (Suc (length h)))
       (h @ [(xapian_enquire_t (Suc (Suc (length h))), True), (EnquireObj d, True)])"
  using assms
  by (auto simp: xapian_enquire_new_def database_at_def alloc_def assign_def deref_append_old
      split: option.splits cell.splits)

lemma xapian_query_describe_eq:
  assumes "query_at h query = Some q"
  shows "xapian_query_describe get_description query h =
     Returns (VPtr (Suc (length h))) (h @ [(StringObj (get_description q), False)])"
  using assms
  by (auto simp: xapian_query_describe_def query_at_def alloc_def destroy_def
      split: option.splits cell.splits)

lemma dead_last:
  "peek (h @ [(c, False)]) (Suc (length h)) = Some c"
  "\<not> live (h @ [(c, False)]) (Suc (length h))"
  "deref (h @ [(c, False)]) (Suc (length h)) = None"
  by (simp_all add: deref_def live_def peek_def)

lemma document_at_assign:
  assumes "deref h doc = Some (xapian_document_t p)" and "deref h p = Some (DocumentObj d)"
  shows "document_at (assign h p (DocumentObj d')) doc = Some d'"
  using assms
  by (auto simp: document_at_def deref_def live_def peek_def assign_def nth_list_update
      split: if_splits)

lemma xapian_document_set_data_eq:
  assumes "document_at h doc = Some d"
  shows "\<exists>h'. xapian_document_set_data doc bytes h = Returns VVoid h'
           \<and> document_at h' doc = Some (set_data (std_string bytes) d)"
  using assms
  by (auto simp: xapian_document_set_data_def document_at_def [of h] document_at_assign
      split: option.splits cell.splits)

lemma xapian_document_add_posting_eq:
  assumes "document_at h doc = Some d"
  shows "\<exists>h'. xapian_document_add_posting doc posting pos h = Returns VVoid h'
           \<and> document_at h' doc = Some (add_posting (std_string posting) pos d)"
  using assms
  by (auto simp: xapian_document_add_posting_def document_at_def [of h] document_at_assign
      split: option.splits cell.splits)

lemma writable_at_assign:
  assumes "deref h db = Some (xapian_database_t p)" and "deref h p = Some (WritableDatabaseObj d)"
  shows "writable_at (assign h p (WritableDatabaseObj d')) db = Some d'"
  using assms
  by (auto simp: writable_at_def deref_def live_def peek_def assign_def nth_list_update
      split: if_splits)

lemma xapian_writable_db_add_document_eq:
  assumes "writable_at h database = Some wdb" and "document_at h document = Some doc"
  shows "\<exists>h'. xapian_writable_db_add_document database document h = Returns VVoid h'
           \<and> writable_at h' database = Some (snd (add_document doc wdb))"
  using assms
  by (auto simp: xapian_writable_db_add_document_def writable_at_def [of h] document_at_def
        writable_at_assign split_beta
      split: option.splits cell.splits)

lemma uint_sint_32: "uint (p :: 32 word) = sint p mod 2 ^ 32"
  by (simp add: uint_sint take_bit_eq_mod)

lemma unat_sint_32: "unat (p :: 32 word) = nat (sint p mod 2 ^ 32)"
  using uint_sint_32 [of p] by (simp add: unat_eq_nat_uint)

lemma unat_sint_nonneg:
  assumes "0 \<le> sint (p :: 32 word)"
  shows "unat p = nat (sint p)"
proof -
  have "sint p < 2 ^ 32"
    using sint_lt [of p] by simp
  with assms have "sint p mod 2 ^ 32 = sint p"
    by simp
  then show ?thesis
    by (simp add: unat_sint_32)
qed


section \<open>Opening a database\<close>

text \<open>
  C1. Given that \<^verbatim>\<open>errorStr\<close> points to a \<^verbatim>\<open>const char *\<close> variable of the caller, each
  of \<^verbatim>\<open>xapian_writable_db_new\<close> and \<^verbatim>\<open>xapian_database_new\<close> returns: when the library
  opens the database, a handle that is not null, behind which the opened database is,
  and \<^verbatim>\<open>*errorStr\<close> is as it was; when the library throws an error, the null pointer,
  and \<^verbatim>\<open>*errorStr\<close> is the pointer to the message of this error. A handle and an error
  never come together.
\<close>

theorem open_handle_or_error:
  assumes "deref h errorStr = Some (CharPtr old)"
  shows "(case WritableDatabase (std_string cFilename) options of
            Inr d \<Rightarrow>
              (\<exists>db h'. xapian_writable_db_new WritableDatabase cFilename options errorStr h
                          = Returns (VPtr db) h'
                 \<and> db \<noteq> NULL \<and> writable_at h' db = Some d
                 \<and> deref h' errorStr = Some (CharPtr old))
          | Inl error \<Rightarrow>
              (\<exists>e h'. xapian_writable_db_new WritableDatabase cFilename options errorStr h
                          = Returns (VPtr NULL) h'
                 \<and> deref h' errorStr = Some (CharPtr e) \<and> e \<noteq> NULL
                 \<and> peek h' e = Some (ErrorObj error)))
       \<and> (case Database (std_string cFilename) of
            Inr d \<Rightarrow>
              (\<exists>db h'. xapian_database_new Database cFilename errorStr h = Returns (VPtr db) h'
                 \<and> db \<noteq> NULL \<and> database_at h' db = Some d
                 \<and> deref h' errorStr = Some (CharPtr old))
          | Inl error \<Rightarrow>
              (\<exists>e h'. xapian_database_new Database cFilename errorStr h = Returns (VPtr NULL) h'
                 \<and> deref h' errorStr = Some (CharPtr e) \<and> e \<noteq> NULL
                 \<and> peek h' e = Some (ErrorObj error)))"
proof
  show "case WritableDatabase (std_string cFilename) options of
            Inr d \<Rightarrow>
              (\<exists>db h'. xapian_writable_db_new WritableDatabase cFilename options errorStr h
                          = Returns (VPtr db) h'
                 \<and> db \<noteq> NULL \<and> writable_at h' db = Some d
                 \<and> deref h' errorStr = Some (CharPtr old))
          | Inl error \<Rightarrow>
              (\<exists>e h'. xapian_writable_db_new WritableDatabase cFilename options errorStr h
                          = Returns (VPtr NULL) h'
                 \<and> deref h' errorStr = Some (CharPtr e) \<and> e \<noteq> NULL
                 \<and> peek h' e = Some (ErrorObj error))"
  proof (cases "WritableDatabase (std_string cFilename) options")
    case (Inr d)
    then show ?thesis
      using assms
      by (simp add: xapian_writable_db_new_ok writable_at_new_handle deref_append_old NULL_def)
  next
    case (Inl error)
    define H where "H = h[errorStr - 1 := (CharPtr (Suc (Suc (length h))), True)]
          @ [(xapian_database_t NULL, False), (ErrorObj error, False)]"
    have "xapian_writable_db_new WritableDatabase cFilename options errorStr h
            = Returns (VPtr NULL) H"
      unfolding H_def using Inl assms by (rule xapian_writable_db_new_error)
    moreover note error_heap(1,2) [OF assms H_def]
    moreover have "Suc (Suc (length h)) \<noteq> NULL"
      by (simp add: NULL_def)
    ultimately have "\<exists>e h'. xapian_writable_db_new WritableDatabase cFilename options errorStr h
                          = Returns (VPtr NULL) h'
                 \<and> deref h' errorStr = Some (CharPtr e) \<and> e \<noteq> NULL
                 \<and> peek h' e = Some (ErrorObj error)"
      by blast
    then show ?thesis
      using Inl by simp
  qed
next
  show "case Database (std_string cFilename) of
            Inr d \<Rightarrow>
              (\<exists>db h'. xapian_database_new Database cFilename errorStr h = Returns (VPtr db) h'
                 \<and> db \<noteq> NULL \<and> database_at h' db = Some d
                 \<and> deref h' errorStr = Some (CharPtr old))
          | Inl error \<Rightarrow>
              (\<exists>e h'. xapian_database_new Database cFilename errorStr h = Returns (VPtr NULL) h'
                 \<and> deref h' errorStr = Some (CharPtr e) \<and> e \<noteq> NULL
                 \<and> peek h' e = Some (ErrorObj error))"
  proof (cases "Database (std_string cFilename)")
    case (Inr d)
    then show ?thesis
      using assms
      by (simp add: xapian_database_new_ok database_at_new_handle deref_append_old NULL_def)
  next
    case (Inl error)
    define H where "H = h[errorStr - 1 := (CharPtr (Suc (Suc (length h))), True)]
          @ [(xapian_database_t NULL, False), (ErrorObj error, False)]"
    have "xapian_database_new Database cFilename errorStr h = Returns (VPtr NULL) H"
      unfolding H_def using Inl assms by (rule xapian_database_new_error)
    moreover note error_heap(1,2) [OF assms H_def]
    moreover have "Suc (Suc (length h)) \<noteq> NULL"
      by (simp add: NULL_def)
    ultimately have "\<exists>e h'. xapian_database_new Database cFilename errorStr h
                          = Returns (VPtr NULL) h'
                 \<and> deref h' errorStr = Some (CharPtr e) \<and> e \<noteq> NULL
                 \<and> peek h' e = Some (ErrorObj error)"
      by blast
    then show ?thesis
      using Inl by simp
  qed
qed

theorem open_handle_or_error_witness:
  "deref caller_heap 1 = Some (CharPtr NULL)
   \<and> xapian_writable_db_new demo_WritableDatabase ''index'' 0 1 caller_heap
       = Returns (VPtr 2)
           [(CharPtr NULL, True), (xapian_database_t 3, True),
            (WritableDatabaseObj empty_database, True)]
   \<and> xapian_database_new demo_Database ''nowhere'' 1 caller_heap
       = Returns (VPtr NULL)
           [(CharPtr 3, True), (xapian_database_t NULL, False),
            (ErrorObj (Error OpenError ''no database''), False)]"
proof -
  have h: "deref caller_heap 1 = Some (CharPtr NULL)"
    by (simp add: caller_heap_def demo_Database_def demo_WritableDatabase_def
        std_string_def NUL_def deref_def live_def peek_def NULL_def)
  show ?thesis
    using h open_handle_or_error [OF h, of demo_WritableDatabase "''index''" 0 demo_Database]
      open_handle_or_error [OF h, of demo_WritableDatabase "''nowhere''" 0 demo_Database]
    by (simp add: xapian_writable_db_new_def xapian_database_new_def alloc_def assign_def
        destroy_def caller_heap_def demo_Database_def demo_WritableDatabase_def
        std_string_def NUL_def deref_def live_def peek_def NULL_def)
qed

text \<open>
  C2. When the library throws, the pointer that \<^verbatim>\<open>xapian_writable_db_new\<close> and
  \<^verbatim>\<open>xapian_database_new\<close> store in \<^verbatim>\<open>*errorStr\<close> is the address of the storage of
  the caught exception object, and in the heap that the call leaves this object is
  destroyed: the pointer dangles as soon as the call has returned, and reading the
  message through it is not defined.
\<close>

theorem error_string_dangles:
  assumes "deref h errorStr = Some (CharPtr old)"
  shows "(WritableDatabase (std_string cFilename) options = Inl error \<longrightarrow>
            (\<exists>e h'. xapian_writable_db_new WritableDatabase cFilename options errorStr h
                        = Returns (VPtr NULL) h'
               \<and> deref h' errorStr = Some (CharPtr e)
               \<and> peek h' e = Some (ErrorObj error)
               \<and> \<not> live h' e \<and> deref h' e = None))
       \<and> (Database (std_string cFilename) = Inl error \<longrightarrow>
            (\<exists>e h'. xapian_database_new Database cFilename errorStr h = Returns (VPtr NULL) h'
               \<and> deref h' errorStr = Some (CharPtr e)
               \<and> peek h' e = Some (ErrorObj error)
               \<and> \<not> live h' e \<and> deref h' e = None))"
proof (intro conjI impI)
  define H where "H = h[errorStr - 1 := (CharPtr (Suc (Suc (length h))), True)]
          @ [(xapian_database_t NULL, False), (ErrorObj error, False)]"
  note facts = error_heap [OF assms H_def]
  {
    assume "WritableDatabase (std_string cFilename) options = Inl error"
    then have "xapian_writable_db_new WritableDatabase cFilename options errorStr h
                 = Returns (VPtr NULL) H"
      unfolding H_def using assms by (rule xapian_writable_db_new_error)
    with facts
    show "\<exists>e h'. xapian_writable_db_new WritableDatabase cFilename options errorStr h
                        = Returns (VPtr NULL) h'
               \<and> deref h' errorStr = Some (CharPtr e)
               \<and> peek h' e = Some (ErrorObj error)
               \<and> \<not> live h' e \<and> deref h' e = None"
      by blast
  }
  {
    assume "Database (std_string cFilename) = Inl error"
    then have "xapian_database_new Database cFilename errorStr h = Returns (VPtr NULL) H"
      unfolding H_def using assms by (rule xapian_database_new_error)
    with facts
    show "\<exists>e h'. xapian_database_new Database cFilename errorStr h = Returns (VPtr NULL) h'
               \<and> deref h' errorStr = Some (CharPtr e)
               \<and> peek h' e = Some (ErrorObj error)
               \<and> \<not> live h' e \<and> deref h' e = None"
      by blast
  }
qed

theorem error_string_dangles_witness:
  "deref caller_heap 1 = Some (CharPtr NULL)
   \<and> demo_WritableDatabase (std_string ''elsewhere'') 0 = Inl (Error LockHeldError ''locked'')
   \<and> demo_Database (std_string ''elsewhere'') = Inl (Error OpenError ''no database'')
   \<and> xapian_writable_db_new demo_WritableDatabase ''elsewhere'' 0 1 caller_heap
       = Returns (VPtr NULL)
           [(CharPtr 3, True), (xapian_database_t NULL, False),
            (ErrorObj (Error LockHeldError ''locked''), False)]
   \<and> live [(CharPtr 3, True), (xapian_database_t NULL, False),
            (ErrorObj (Error LockHeldError ''locked''), False)] 3 = False"
proof -
  have h: "deref caller_heap 1 = Some (CharPtr NULL)"
    by (simp add: caller_heap_def deref_def live_def peek_def)
  show ?thesis
    using h error_string_dangles [OF h, of demo_WritableDatabase "''elsewhere''" 0
        "Error LockHeldError ''locked''" demo_Database]
    by (simp add: xapian_writable_db_new_def alloc_def assign_def destroy_def
        caller_heap_def demo_Database_def demo_WritableDatabase_def
        std_string_def NUL_def deref_def live_def peek_def NULL_def)
qed


section \<open>Queries\<close>

text \<open>
  C3. The code does not give the string of the claim. In the scenario
  \<^verbatim>\<open>describe(combine(op, termQuery(a), termQuery(b)))\<close>, for a recognized operator code,
  the library renders the node with \<open>a\<close> on the left and \<open>b\<close> on the right into a
  temporary string, \<^verbatim>\<open>xapian_query_describe\<close> returns the address of its characters,
  and the temporary is destroyed when the call returns: the pointer that the caller
  receives dangles, and reading a string through it is not defined.
\<close>

theorem describe_returns_dangling:
  assumes "recognized op"
  shows "\<exists>p h'. describe_combine recognized get_description op a b h = Returns (VPtr p) h'
           \<and> peek h' p = Some (StringObj (get_description
                (Combine op (TermLeaf (std_string a)) (TermLeaf (std_string b)))))
           \<and> \<not> live h' p \<and> deref h' p = None"
proof -
  define k2 where "k2 = (h @ [(xapian_query_t (Suc (Suc (length h))), True),
      (QueryObj (TermLeaf (std_string a)), True)])
      @ [(xapian_query_t (Suc (Suc (Suc (Suc (length h))))), True),
      (QueryObj (TermLeaf (std_string b)), True)]"
  define k3 where "k3 = k2 @ [(xapian_query_t (Suc (Suc (length k2))), True),
      (QueryObj (Combine op (TermLeaf (std_string a)) (TermLeaf (std_string b))), True)]"
  define s where "s = get_description
      (Combine op (TermLeaf (std_string a)) (TermLeaf (std_string b)))"
  have qa: "query_at k2 (Suc (length h)) = Some (TermLeaf (std_string a))"
    unfolding k2_def by (rule query_at_append) (rule query_at_new_handle)
  have qb: "query_at k2 (Suc (Suc (Suc (length h)))) = Some (TermLeaf (std_string b))"
    unfolding k2_def
    using query_at_new_handle [of "h @ [(xapian_query_t (Suc (Suc (length h))), True),
      (QueryObj (TermLeaf (std_string a)), True)]" "TermLeaf (std_string b)"]
    by simp
  have c: "xapian_query_combine recognized op (Suc (length h)) (Suc (Suc (Suc (length h)))) k2
       = Returns (VPtr (Suc (length k2))) k3"
    using assms by (simp add: xapian_query_combine_eq [OF qa qb] k3_def)
  have "query_at k3 (Suc (length k2))
       = Some (Combine op (TermLeaf (std_string a)) (TermLeaf (std_string b)))"
    unfolding k3_def by (rule query_at_new_handle)
  then have d: "xapian_query_describe get_description (Suc (length k2)) k3
       = Returns (VPtr (Suc (length k3))) (k3 @ [(StringObj s, False)])"
    unfolding s_def by (rule xapian_query_describe_eq)
  have "describe_combine recognized get_description op a b h
       = xapian_query_describe get_description (Suc (length k2)) k3"
    using c by (simp add: describe_combine_def xapian_query_new_eq k2_def)
  with d have "describe_combine recognized get_description op a b h
       = Returns (VPtr (Suc (length k3))) (k3 @ [(StringObj s, False)])"
    by simp
  with dead_last [of k3 "StringObj s"] show ?thesis
    unfolding s_def by blast
qed

theorem describe_returns_dangling_witness:
  "demo_recognized 0
   \<and> describe_combine demo_recognized demo_description 0 ''a'' ''b'' caller_heap
       = Returns (VPtr 8)
           [(CharPtr NULL, True),
            (xapian_query_t 3, True), (QueryObj (TermLeaf ''a''), True),
            (xapian_query_t 5, True), (QueryObj (TermLeaf ''b''), True),
            (xapian_query_t 7, True),
            (QueryObj (Combine 0 (TermLeaf ''a'') (TermLeaf ''b'')), True),
            (StringObj ''(a,b)'', False)]"
proof -
  have h: "demo_recognized 0"
    by (simp add: demo_recognized_def)
  show ?thesis
    using h describe_returns_dangling [where recognized = demo_recognized and op = 0
        and get_description = demo_description and a = "''a''" and b = "''b''"
        and h = caller_heap]
    by (simp add: describe_combine_def xapian_query_new_def xapian_query_combine_def
        xapian_query_describe_def Query_def Query_op_def alloc_def assign_def destroy_def
        deref_def live_def peek_def caller_heap_def std_string_def NUL_def)
qed

text \<open>
  C4. For an operator code that is not recognized, \<^verbatim>\<open>xapian_query_combine\<close> on two
  queries does not return: the \<^const>\<open>InvalidOperatorError\<close> of the library's constructor
  leaves the function, which has no handler. No query node is built: the only new cell
  of the heap is the handle struct, allocated before the constructor ran and never
  released.
\<close>

theorem combine_unrecognized_fails:
  assumes "\<not> recognized op" and "query_at h qa = Some a" and "query_at h qb = Some b"
  shows "xapian_query_combine recognized op qa qb h
           = Raises InvalidOperatorError (h @ [(xapian_query_t NULL, True)])
       \<and> returned (xapian_query_combine recognized op qa qb h) = None"
  using assms(1) by (simp add: xapian_query_combine_eq [OF assms(2,3)])

theorem combine_unrecognized_fails_witness:
  "\<not> demo_recognized 99 \<and> query_at query_heap 2 = Some (TermLeaf ''a'')
   \<and> query_at query_heap 4 = Some (TermLeaf ''b'')
   \<and> xapian_query_combine demo_recognized 99 2 4 query_heap
       = Raises InvalidOperatorError (query_heap @ [(xapian_query_t NULL, True)])"
proof -
  have h: "\<not> demo_recognized 99" "query_at query_heap 2 = Some (TermLeaf ''a'')"
    "query_at query_heap 4 = Some (TermLeaf ''b'')"
    by (simp_all add: demo_recognized_def query_at_def query_heap_def deref_def live_def peek_def)
  show ?thesis
    using h combine_unrecognized_fails [where recognized = demo_recognized and op = 99
        and h = query_heap and qa = 2 and qb = 4 and a = "TermLeaf ''a''" and b = "TermLeaf ''b''"]
    by simp
qed

text \<open>
  C7. For queries behind the handles \<open>qa\<close> and \<open>qb\<close>, whatever
  \<^verbatim>\<open>xapian_query_combine\<close> does, the heap that it leaves has every cell that was there
  as it was; the two handles hold the queries they held, so that the library's
  description of the query behind each handle is what it was before the call. For a
  recognized operator code the call returns a handle that is new, different from \<open>qa\<close>
  and \<open>qb\<close>, to the node that combines the two queries.
\<close>

theorem combine_leaves_operands:
  assumes "query_at h qa = Some a" and "query_at h qb = Some b"
  shows "(\<forall>h'. heap_after (xapian_query_combine recognized op qa qb h) = Some h' \<longrightarrow>
            take (length h) h' = h
            \<and> query_at h' qa = Some a \<and> query_at h' qb = Some b
            \<and> map_option get_description (query_at h' qa)
                = map_option get_description (query_at h qa)
            \<and> map_option get_description (query_at h' qb)
                = map_option get_description (query_at h qb))
       \<and> (recognized op \<longrightarrow>
            (\<exists>q h'. xapian_query_combine recognized op qa qb h = Returns (VPtr q) h'
               \<and> q \<noteq> qa \<and> q \<noteq> qb \<and> query_at h q = None
               \<and> query_at h' q = Some (Combine op a b)))"
proof (intro conjI allI impI)
  fix h'
  assume "heap_after (xapian_query_combine recognized op qa qb h) = Some h'"
  then obtain xs where h': "h' = h @ xs"
    by (auto simp add: xapian_query_combine_eq [OF assms] split: if_splits)
  show "take (length h) h' = h"
    by (simp add: h')
  show a': "query_at h' qa = Some a"
    unfolding h' using assms(1) by (rule query_at_append)
  show b': "query_at h' qb = Some b"
    unfolding h' using assms(2) by (rule query_at_append)
  show "map_option get_description (query_at h' qa)
          = map_option get_description (query_at h qa)"
    by (simp add: a' assms(1))
  show "map_option get_description (query_at h' qb)
          = map_option get_description (query_at h qb)"
    by (simp add: b' assms(2))
next
  assume r: "recognized op"
  have fresh: "query_at h (Suc (length h)) = None"
    by (simp add: query_at_def deref_def live_def)
  have "Suc (length h) \<noteq> qa" "Suc (length h) \<noteq> qb"
    using assms fresh by auto
  then show "\<exists>q h'. xapian_query_combine recognized op qa qb h = Returns (VPtr q) h'
               \<and> q \<noteq> qa \<and> q \<noteq> qb \<and> query_at h q = None
               \<and> query_at h' q = Some (Combine op a b)"
    using r fresh by (simp add: xapian_query_combine_eq [OF assms] query_at_new_handle)
qed

theorem combine_leaves_operands_witness:
  "query_at query_heap 2 = Some (TermLeaf ''a'')
   \<and> query_at query_heap 4 = Some (TermLeaf ''b'')
   \<and> demo_recognized 1
   \<and> xapian_query_combine demo_recognized 1 2 4 query_heap
       = Returns (VPtr 6)
           (query_heap @ [(xapian_query_t 7, True),
              (QueryObj (Combine 1 (TermLeaf ''a'') (TermLeaf ''b'')), True)])
   \<and> query_at
        (query_heap @ [(xapian_query_t 7, True),
              (QueryObj (Combine 1 (TermLeaf ''a'') (TermLeaf ''b'')), True)]) 2
       = Some (TermLeaf ''a'')
   \<and> query_at
        (query_heap @ [(xapian_query_t 7, True),
              (QueryObj (Combine 1 (TermLeaf ''a'') (TermLeaf ''b'')), True)]) 4
       = Some (TermLeaf ''b'')"
proof -
  have h: "query_at query_heap 2 = Some (TermLeaf ''a'')"
    "query_at query_heap 4 = Some (TermLeaf ''b'')"
    by (simp_all add: query_at_def query_heap_def deref_def live_def peek_def)
  have r: "demo_recognized 1"
    by (simp add: demo_recognized_def)
  have c: "xapian_query_combine demo_recognized 1 2 4 query_heap
       = Returns (VPtr 6)
           (query_heap @ [(xapian_query_t 7, True),
              (QueryObj (Combine 1 (TermLeaf ''a'') (TermLeaf ''b'')), True)])"
    using r by (simp add: xapian_query_combine_eq [OF h]) (simp add: query_heap_def)
  show ?thesis
    using h r c combine_leaves_operands [where recognized = demo_recognized and op = 1
        and h = query_heap and qa = 2 and qb = 4 and a = "TermLeaf ''a''"
        and b = "TermLeaf ''b''" and get_description = demo_description]
    by simp
qed


section \<open>Documents\<close>

text \<open>
  C5, as stated, fails: \<^verbatim>\<open>xapian_writable_db_add_document\<close> is a \<^verbatim>\<open>void\<close> function.
  Adding a new document to an empty writable database stores it under the document id
  1, and the call returns no value, so not this id.
\<close>

theorem add_document_returns_no_id_counterexample:
  "xapian_writable_db_add_document 2 4 writer_heap
     = Returns VVoid
         [(CharPtr NULL, True),
          (xapian_database_t 3, True),
          (WritableDatabaseObj \<lparr>docs = [(1, Document)], lastdocid = 1\<rparr>, True),
          (xapian_document_t 5, True), (DocumentObj Document, True)]
   \<and> returned (xapian_writable_db_add_document 2 4 writer_heap) \<noteq> Some (VUInt 1)"
  by (simp add: xapian_writable_db_add_document_def writer_heap_def deref_def live_def peek_def
      assign_def add_document_def empty_database_def)

text \<open>
  C5, amended. For a writable database and a document, \<^verbatim>\<open>xapian_writable_db_add_document\<close>
  appends the document to the database under the next sequential document id, one more
  than the last id of the writer, and returns nothing to the caller.
\<close>

theorem add_document_stores_next_id:
  assumes "writable_at h database = Some wdb" and "document_at h document = Some doc"
  shows "\<exists>h'. xapian_writable_db_add_document database document h = Returns VVoid h'
           \<and> writable_at h' database = Some (snd (add_document doc wdb))
           \<and> fst (add_document doc wdb) = Suc (lastdocid wdb)
           \<and> docs (snd (add_document doc wdb)) = docs wdb @ [(Suc (lastdocid wdb), doc)]
           \<and> lastdocid (snd (add_document doc wdb)) = Suc (lastdocid wdb)"
  using xapian_writable_db_add_document_eq [OF assms]
  by (simp add: add_document_def)

theorem add_document_stores_next_id_witness:
  "writable_at writer_heap 2 = Some empty_database
   \<and> document_at writer_heap 4 = Some Document
   \<and> returned (xapian_writable_db_add_document 2 4 writer_heap) = Some VVoid
   \<and> fst (add_document Document empty_database) = 1"
proof -
  have h: "writable_at writer_heap 2 = Some empty_database"
    "document_at writer_heap 4 = Some Document"
    by (simp_all add: writable_at_def document_at_def writer_heap_def deref_def live_def peek_def)
  show ?thesis
    using h add_document_stores_next_id [OF h]
    by (auto simp add: empty_database_def)
qed

text \<open>
  C6, as stated, fails: the data is passed as a \<^verbatim>\<open>const char *\<close> without a length.
  Of the three bytes \<open>a\<close>, NUL, \<open>b\<close> the document stores the first one.
\<close>

theorem set_data_interior_nul_counterexample:
  "xapian_document_set_data 4 [CHR ''a'', NUL, CHR ''b''] writer_heap
     = Returns VVoid
         [(CharPtr NULL, True),
          (xapian_database_t 3, True), (WritableDatabaseObj empty_database, True),
          (xapian_document_t 5, True), (DocumentObj \<lparr>data = ''a'', terms = []\<rparr>, True)]
   \<and> ''a'' \<noteq> [CHR ''a'', NUL, CHR ''b'']"
  by (simp add: xapian_document_set_data_def writer_heap_def deref_def live_def peek_def
      assign_def set_data_def std_string_def NUL_def Document_def)

text \<open>
  C6, amended. \<^verbatim>\<open>xapian_document_set_data\<close> stores the bytes that the caller supplied
  up to the first NUL byte, which is not stored, and leaves the terms of the document
  as they are; for a byte sequence without a NUL byte the stored data is exactly the
  sequence.
\<close>

theorem set_data_stores_c_string:
  assumes "document_at h doc = Some d"
  shows "\<exists>h'. xapian_document_set_data doc bytes h = Returns VVoid h'
           \<and> map_option data (document_at h' doc) = Some (takeWhile (\<lambda>c. c \<noteq> NUL) bytes)
           \<and> map_option terms (document_at h' doc) = Some (terms d)
           \<and> (NUL \<notin> set bytes \<longrightarrow> map_option data (document_at h' doc) = Some bytes)"
proof -
  have "NUL \<notin> set bytes \<longrightarrow> takeWhile (\<lambda>c. c \<noteq> NUL) bytes = bytes"
    by (auto intro: takeWhile_eq_all_conv [THEN iffD2])
  then show ?thesis
    using xapian_document_set_data_eq [OF assms, of bytes]
    by (auto simp add: set_data_def std_string_def)
qed

theorem set_data_stores_c_string_witness:
  "document_at writer_heap 4 = Some Document
   \<and> NUL \<notin> set ''doc1''
   \<and> xapian_document_set_data 4 ''doc1'' writer_heap
     = Returns VVoid
         [(CharPtr NULL, True),
          (xapian_database_t 3, True), (WritableDatabaseObj empty_database, True),
          (xapian_document_t 5, True), (DocumentObj \<lparr>data = ''doc1'', terms = []\<rparr>, True)]"
proof -
  have h: "document_at writer_heap 4 = Some Document"
    by (simp add: document_at_def writer_heap_def deref_def live_def peek_def)
  show ?thesis
    using h set_data_stores_c_string [OF h, of "''doc1''"]
    by (simp add: xapian_document_set_data_def writer_heap_def deref_def live_def peek_def
      assign_def set_data_def std_string_def NUL_def Document_def)
qed

text \<open>
  C8. \<^verbatim>\<open>xapian_document_add_posting\<close> with the term \<open>t\<close> and the position \<open>p\<close> records
  the pair in the document, and the recorded position, read as the unsigned integer that
  the library takes it for, is \<open>p\<close> converted to unsigned: \<open>p\<close> modulo \<open>2 ^ 32\<close>, which
  is \<open>p\<close> itself when \<open>p\<close> is not negative.
\<close>

theorem add_posting_position_unsigned:
  assumes "document_at h doc = Some d"
  shows "\<exists>h' d'. xapian_document_add_posting doc posting pos h = Returns VVoid h'
           \<and> document_at h' doc = Some d'
           \<and> (std_string posting, pos) \<in> set (terms d')
           \<and> unat pos \<in> set (positions (std_string posting) d')
           \<and> unat pos = nat (sint pos mod 2 ^ 32)
           \<and> (0 \<le> sint pos \<longrightarrow> int (unat pos) = sint pos)"
proof -
  obtain h' where h': "xapian_document_add_posting doc posting pos h = Returns VVoid h'"
    "document_at h' doc = Some (add_posting (std_string posting) pos d)"
    using xapian_document_add_posting_eq [OF assms] by blast
  have m: "(std_string posting, pos) \<in> set (terms (add_posting (std_string posting) pos d))"
    by (simp add: add_posting_def)
  then have "unat pos \<in> set (positions (std_string posting)
      (add_posting (std_string posting) pos d))"
    unfolding positions_def by force
  moreover have "0 \<le> sint pos \<longrightarrow> int (unat pos) = sint pos"
    using unat_sint_nonneg [of pos] by simp
  ultimately show ?thesis
    using h' m unat_sint_32 [of pos] by blast
qed

theorem add_posting_position_unsigned_witness:
  "document_at writer_heap 4 = Some Document
   \<and> xapian_document_add_posting 4 ''x'' (- 1) writer_heap
     = Returns VVoid
         [(CharPtr NULL, True),
          (xapian_database_t 3, True), (WritableDatabaseObj empty_database, True),
          (xapian_document_t 5, True),
          (DocumentObj \<lparr>data = [], terms = [(''x'', - 1)]\<rparr>, True)]
   \<and> unat (- 1 :: termpos) = 4294967295"
proof -
  have h: "document_at writer_heap 4 = Some Document"
    by (simp add: document_at_def writer_heap_def deref_def live_def peek_def)
  show ?thesis
    using h add_posting_position_unsigned [OF h, of "''x''" "- 1"]
    by (auto simp add: xapian_document_add_posting_def writer_heap_def deref_def live_def
      peek_def assign_def add_posting_def std_string_def NUL_def Document_def)
qed


section \<open>The constructors that open no database\<close>

text \<open>
  C10, as stated, fails for \<^verbatim>\<open>xapian_query_combine\<close>: with the operator code \<open>-1\<close>,
  which the library does not recognize, the call on two term queries returns no handle;
  the error of the library's constructor leaves the function.
\<close>

theorem combine_not_total_counterexample:
  "xapian_query_combine demo_recognized (- 1) 2 4 query_heap
     = Raises InvalidOperatorError
         [(CharPtr NULL, True),
          (xapian_query_t 3, True), (QueryObj (TermLeaf ''a''), True),
          (xapian_query_t 5, True), (QueryObj (TermLeaf ''b''), True),
          (xapian_query_t NULL, True)]
   \<and> returned (xapian_query_combine demo_recognized (- 1) 2 4 query_heap) = None"
  by (simp add: xapian_query_combine_def query_heap_def alloc_def deref_def live_def peek_def
      Query_op_def demo_recognized_def)

text \<open>
  C10, amended. \<^verbatim>\<open>xapian_document_new\<close> and \<^verbatim>\<open>xapian_query_new\<close>, for every input,
  \<^verbatim>\<open>xapian_enquire_new\<close>, for a database handle, and \<^verbatim>\<open>xapian_query_combine\<close>, for two
  query handles and a recognized operator code, return a handle that is not null. They
  write no error: every cell that the heap had before is as it was. The document behind
  the handle of \<^verbatim>\<open>xapian_document_new\<close> has empty data and no terms.
\<close>

theorem constructors_return_handles:
  shows "(\<exists>doc h'. xapian_document_new h = Returns (VPtr doc) h'
            \<and> doc \<noteq> NULL \<and> take (length h) h' = h
            \<and> document_at h' doc = Some \<lparr>data = [], terms = []\<rparr>)
       \<and> (\<exists>q h'. xapian_query_new term h = Returns (VPtr q) h'
            \<and> q \<noteq> NULL \<and> take (length h) h' = h
            \<and> query_at h' q = Some (TermLeaf (std_string term)))
       \<and> (database_at h database = Some d \<longrightarrow>
            (\<exists>enquire h'. xapian_enquire_new database h = Returns (VPtr enquire) h'
               \<and> enquire \<noteq> NULL \<and> take (length h) h' = h
               \<and> enquire_at h' enquire = Some d))
       \<and> (query_at h qa = Some a \<and> query_at h qb = Some b \<and> recognized op \<longrightarrow>
            (\<exists>q h'. xapian_query_combine recognized op qa qb h = Returns (VPtr q) h'
               \<and> q \<noteq> NULL \<and> take (length h) h' = h
               \<and> query_at h' q = Some (Combine op a b)))"
proof (intro conjI impI)
  show "\<exists>doc h'. xapian_document_new h = Returns (VPtr doc) h'
            \<and> doc \<noteq> NULL \<and> take (length h) h' = h
            \<and> document_at h' doc = Some \<lparr>data = [], terms = []\<rparr>"
    using document_at_new_handle [of h Document]
    by (simp add: xapian_document_new_eq NULL_def Document_def)
  show "\<exists>q h'. xapian_query_new term h = Returns (VPtr q) h'
            \<and> q \<noteq> NULL \<and> take (length h) h' = h
            \<and> query_at h' q = Some (TermLeaf (std_string term))"
    by (simp add: xapian_query_new_eq NULL_def query_at_new_handle)
next
  assume "database_at h database = Some d"
  then show "\<exists>enquire h'. xapian_enquire_new database h = Returns (VPtr enquire) h'
               \<and> enquire \<noteq> NULL \<and> take (length h) h' = h
               \<and> enquire_at h' enquire = Some d"
    by (simp add: xapian_enquire_new_eq NULL_def enquire_at_new_handle)
next
  assume "query_at h qa = Some a \<and> query_at h qb = Some b \<and> recognized op"
  then show "\<exists>q h'. xapian_query_combine recognized op qa qb h = Returns (VPtr q) h'
               \<and> q \<noteq> NULL \<and> take (length h) h' = h
               \<and> query_at h' q = Some (Combine op a b)"
    by (simp add: xapian_query_combine_eq NULL_def query_at_new_handle)
qed

theorem constructors_return_handles_witness:
  "database_at writer_heap 2 = Some empty_database
   \<and> query_at query_heap 2 = Some (TermLeaf ''a'') \<and> query_at query_heap 4 = Some (TermLeaf ''b'')
   \<and> demo_recognized 2
   \<and> xapian_enquire_new 2 writer_heap
       = Returns (VPtr 6)
           (writer_heap @ [(xapian_enquire_t 7, True), (EnquireObj empty_database, True)])
   \<and> xapian_query_combine demo_recognized 2 2 4 query_heap
       = Returns (VPtr 6)
           (query_heap @ [(xapian_query_t 7, True),
              (QueryObj (Combine 2 (TermLeaf ''a'') (TermLeaf ''b'')), True)])
   \<and> xapian_document_new []
       = Returns (VPtr 1) [(xapian_document_t 2, True), (DocumentObj Document, True)]
   \<and> xapian_query_new ''a'' []
       = Returns (VPtr 1) [(xapian_query_t 2, True), (QueryObj (TermLeaf ''a''), True)]"
proof -
  have d: "database_at writer_heap 2 = Some empty_database"
    by (simp add: database_at_def writer_heap_def deref_def live_def peek_def)
  have q: "query_at query_heap 2 = Some (TermLeaf ''a'')"
    "query_at query_heap 4 = Some (TermLeaf ''b'')"
    by (simp_all add: query_at_def query_heap_def deref_def live_def peek_def)
  have r: "demo_recognized 2"
    by (simp add: demo_recognized_def)
  have e: "xapian_enquire_new 2 writer_heap
       = Returns (VPtr 6)
           (writer_heap @ [(xapian_enquire_t 7, True), (EnquireObj empty_database, True)])"
    by (simp add: xapian_enquire_new_eq [OF d]) (simp add: writer_heap_def)
  have c: "xapian_query_combine demo_recognized 2 2 4 query_heap
       = Returns (VPtr 6)
           (query_heap @ [(xapian_query_t 7, True),
              (QueryObj (Combine 2 (TermLeaf ''a'') (TermLeaf ''b'')), True)])"
    using r by (simp add: xapian_query_combine_eq [OF q]) (simp add: query_heap_def)
  show ?thesis
    using d q r e c constructors_return_handles [where h = query_heap and database = 2
        and recognized = demo_recognized and op = 2 and qa = 2 and qb = 4
        and a = "TermLeaf ''a''" and b = "TermLeaf ''b''"]
      constructors_return_handles [where h = writer_heap and database = 2
        and d = empty_database]
    by (simp add: xapian_document_new_eq xapian_query_new_eq std_string_def NUL_def)
qed

end
